theory Spec2Isabelle
  imports Complex_Main
begin

section \<open>The stock plugin of InkyPi (src/plugins/stock/stock.py)\<close>

text \<open>
  The plugin fetches a quote and a price history and draws a dashboard with a two-colour
  sparkline onto a PIL image. The embedding below follows \<^verbatim>\<open>stock.py\<close> function by
  function.

  \<^item> Python numbers (the \<^verbatim>\<open>int\<close> pixel values and the \<^verbatim>\<open>float\<close> prices) are modelled
    as exact \<^typ>\<open>real\<close> numbers; \<^verbatim>\<open>/\<close> is true division. The rounding of binary64
    arithmetic, NaN and infinities are outside the model.
  \<^item> Every operation of the source that can raise on numbers or sequences returns a value
    of \<open>error + 'a\<close>, \<open>Inl\<close> being the raised exception.
  \<^item> The PIL canvas is the list of drawing calls made on it, in order.
\<close>

subsection \<open>Exceptions and fallible primitives\<close>

datatype error = ZeroDivisionError | ValueError | IndexError

text \<open>Sequencing of fallible steps: the first exception raised propagates.\<close>

definition and_then :: "error + 'a \<Rightarrow> ('a \<Rightarrow> error + 'b) \<Rightarrow> error + 'b" where
  "and_then m f = (case m of Inl e \<Rightarrow> Inl e | Inr v \<Rightarrow> f v)"

text \<open>Python's \<^verbatim>\<open>a / b\<close> raises \<^verbatim>\<open>ZeroDivisionError\<close> when \<^verbatim>\<open>b\<close> is zero.\<close>

definition py_div :: "real \<Rightarrow> real \<Rightarrow> error + real" where
  "py_div a b = (if b = 0 then Inl ZeroDivisionError else Inr (a / b))"

subsection \<open>\<^verbatim>\<open>Stock.map_range\<close> (lines 61-64)\<close>

text \<open>
  \<^verbatim>\<open>
  def map_range(self, value, in_min, in_max, out_min, out_max):
      if in_max == in_min:
          return (out_min + out_max) / 2
      return (value - in_min) * (out_max - out_min) / (in_max - in_min) + out_min
  \<close>
\<close>

definition map_range :: "real \<Rightarrow> real \<Rightarrow> real \<Rightarrow> real \<Rightarrow> real \<Rightarrow> error + real" where
  "map_range value in_min in_max out_min out_max =
     (if in_max = in_min then py_div (out_min + out_max) 2
      else and_then (py_div ((value - in_min) * (out_max - out_min)) (in_max - in_min))
             (\<lambda>q. Inr (q + out_min)))"

subsection \<open>Sequences\<close>

text \<open>
  \<^verbatim>\<open>min(xs)\<close> and \<^verbatim>\<open>max(xs)\<close> raise \<^verbatim>\<open>ValueError\<close> on an empty sequence, and
  \<^verbatim>\<open>xs[-1]\<close> raises \<^verbatim>\<open>IndexError\<close> there.
\<close>

fun py_min :: "real list \<Rightarrow> error + real" where
  "py_min [] = Inl ValueError"
| "py_min (x # xs) = Inr (fold min xs x)"

fun py_max :: "real list \<Rightarrow> error + real" where
  "py_max [] = Inl ValueError"
| "py_max (x # xs) = Inr (fold max xs x)"

definition py_last :: "'a list \<Rightarrow> error + 'a" where
  "py_last xs = (if xs = [] then Inl IndexError else Inr (last xs))"

text \<open>\<^verbatim>\<open>int(x)\<close> on a float truncates towards zero.\<close>

definition py_int :: "real \<Rightarrow> int" where
  "py_int x = (if 0 \<le> x then \<lfloor>x\<rfloor> else \<lceil>x\<rceil>)"

subsection \<open>The canvas\<close>

type_synonym color = "nat \<times> nat \<times> nat"
type_synonym point = "real \<times> real"

datatype font = TrueType string int | DefaultFont

text \<open>
  A drawn string is kept as the pieces of its f-string: literal text and formatted
  numbers (\<^verbatim>\<open>:.2f\<close>, \<^verbatim>\<open>:,.2f\<close> and \<^verbatim>\<open>:.1f\<close>).
\<close>

datatype piece = Str string | Fix2 real | Fix2_grouped real | Fix1 real

datatype draw_op =
    Text point "piece list" color font
  | Line point point color int
  | Ellipse "real \<times> real \<times> real \<times> real" color

record image =
  img_size :: "nat \<times> nat"
  img_bg :: color
  img_ops :: "draw_op list"

definition c_bg :: color where "c_bg = (255, 255, 255)"
definition c_text_main :: color where "c_text_main = (0, 0, 0)"
definition c_dim :: color where "c_dim = (0, 0, 0)"
definition c_grid :: color where "c_grid = (0, 0, 255)"
definition c_up :: color where "c_up = (0, 255, 0)"
definition c_down :: color where "c_down = (255, 0, 0)"

subsection \<open>The collaborators\<close>

text \<open>The dictionary returned by \<^verbatim>\<open>get_stock_data\<close> (lines 46-54).\<close>

record stock_data =
  price :: real
  prev_close :: real
  d_open :: real
  d_high :: real
  d_low :: real
  d_vol :: real
  history :: "real list"

text \<open>
  What the render reads from outside: the outcome of each attempt on Yahoo Finance
  (\<open>None\<close> when the attempt raised), the device configuration, whether
  \<^verbatim>\<open>ImageFont.truetype\<close> finds a font (it raises \<^verbatim>\<open>OSError\<close> otherwise), the width
  of a string in a font, and the formatted clock. The resolution is a pair of pixel counts,
  hence of natural numbers.
\<close>

record device =
  yf_attempt :: "string \<Rightarrow> string \<Rightarrow> string \<Rightarrow> nat \<Rightarrow> stock_data option"
  resolution :: "nat \<times> nat"
  orientation :: string
  truetype_ok :: "string \<Rightarrow> int \<Rightarrow> bool"
  text_length :: "font \<Rightarrow> string \<Rightarrow> real"
  now_str :: string

subsection \<open>\<^verbatim>\<open>Stock.get_stock_data\<close> (lines 21-59)\<close>

text \<open>
  \<^verbatim>\<open>for attempt in range(self.retries)\<close>: an attempt that succeeds returns its
  dictionary; one that raises is logged and followed by the next; after the last one the
  function returns \<^verbatim>\<open>None\<close>. \<^verbatim>\<open>self.retries\<close> is 3 (line 13).
\<close>

definition retries :: nat where "retries = 3"

fun attempts_from :: "(nat \<Rightarrow> stock_data option) \<Rightarrow> nat \<Rightarrow> nat \<Rightarrow> stock_data option" where
  "attempts_from f attempt 0 = None"
| "attempts_from f attempt (Suc n) =
     (case f attempt of Some d \<Rightarrow> Some d | None \<Rightarrow> attempts_from f (Suc attempt) n)"

definition get_stock_data :: "device \<Rightarrow> string \<Rightarrow> string \<Rightarrow> string \<Rightarrow> stock_data option" where
  "get_stock_data dev ticker period interval =
     attempts_from (yf_attempt dev ticker period interval) 0 retries"

subsection \<open>\<^verbatim>\<open>Stock.generate_image\<close>: quote arithmetic (lines 101-108)\<close>

definition change_amt :: "real \<Rightarrow> real \<Rightarrow> real" where
  "change_amt current_price prev = current_price - prev"

text \<open>\<^verbatim>\<open>(change_amt / prev_close) * 100 if prev_close else 0\<close>\<close>

definition change_pct :: "real \<Rightarrow> real \<Rightarrow> error + real" where
  "change_pct current_price prev =
     (if prev \<noteq> 0
      then and_then (py_div (change_amt current_price prev) prev) (\<lambda>q. Inr (q * 100))
      else Inr 0)"

subsection \<open>\<^verbatim>\<open>Stock.generate_image\<close>: the chart (lines 178-258)\<close>

definition chart_x_start :: "nat \<Rightarrow> real" where
  "chart_x_start width = real_of_int (py_int (real width * 0.03))"

definition chart_x_end :: "nat \<Rightarrow> real" where
  "chart_x_end width = real width - real_of_int (py_int (real width * 0.03))"

definition chart_y_start :: "nat \<Rightarrow> real" where
  "chart_y_start height = real_of_int (py_int (real height * 0.625))"

definition chart_y_end :: "nat \<Rightarrow> real" where
  "chart_y_end height = real height - real_of_int (py_int (real height * 0.08))"

text \<open>Lines 188-189: the plotted range of prices, which includes the previous close.\<close>

definition value_range :: "real list \<Rightarrow> real \<Rightarrow> error + real \<times> real" where
  "value_range hist prev =
     and_then (py_min hist) (\<lambda>lo.
     and_then (py_max hist) (\<lambda>hi.
       Inr (min lo prev, max hi prev)))"

text \<open>Line 196: the y coordinate of the previous close.\<close>

definition y_base_of :: "nat \<Rightarrow> real \<Rightarrow> real \<times> real \<Rightarrow> error + real" where
  "y_base_of height prev rng =
     map_range prev (fst rng) (snd rng) (chart_y_end height) (chart_y_start height)"

text \<open>Lines 203-207: one point for each price, in order.\<close>

fun project :: "nat \<Rightarrow> nat \<Rightarrow> nat \<Rightarrow> real \<times> real \<Rightarrow> (nat \<times> real) list \<Rightarrow> error + point list" where
  "project width height n rng [] = Inr []"
| "project width height n rng ((i, p) # rest) =
     and_then (map_range (real i) 0 (real_of_int (int n - 1)) (chart_x_start width) (chart_x_end width)) (\<lambda>x.
     and_then (map_range p (fst rng) (snd rng) (chart_y_end height) (chart_y_start height)) (\<lambda>y.
     and_then (project width height n rng rest) (\<lambda>pts.
       Inr ((x, y) # pts))))"

definition points_of :: "nat \<Rightarrow> nat \<Rightarrow> real \<times> real \<Rightarrow> real list \<Rightarrow> error + point list" where
  "points_of width height rng hist =
     project width height (length hist) rng (enumerate 0 hist)"

text \<open>Lines 233-240: where a segment meets the baseline.\<close>

definition cross_ratio :: "real \<Rightarrow> real \<Rightarrow> real \<Rightarrow> error + real" where
  "cross_ratio y1 y2 y_base = py_div (y_base - y1) (y2 - y1)"

definition crossing :: "point \<Rightarrow> point \<Rightarrow> real \<Rightarrow> error + point" where
  "crossing p1 p2 y_base =
     (case (p1, p2) of ((x1, y1), (x2, y2)) \<Rightarrow>
        if y2 \<noteq> y1
        then and_then (cross_ratio y1 y2 y_base) (\<lambda>ratio.
               Inr (x1 + (x2 - x1) * ratio, y_base))
        else Inr (x1, y1))"

text \<open>Lines 213-248: the body of the loop over adjacent points.\<close>

definition draw_segment :: "point \<Rightarrow> point \<Rightarrow> real \<Rightarrow> int \<Rightarrow> error + draw_op list" where
  "draw_segment p1 p2 y_base line_width =
     (if snd p1 \<le> y_base \<and> snd p2 \<le> y_base then Inr [Line p1 p2 c_up line_width]
      else if snd p1 \<ge> y_base \<and> snd p2 \<ge> y_base then Inr [Line p1 p2 c_down line_width]
      else and_then (crossing p1 p2 y_base) (\<lambda>cross.
        let color_1 = (if snd p1 < y_base then c_up else c_down);
            color_2 = (if snd p2 < y_base then c_up else c_down)
        in Inr [Line p1 cross color_1 line_width, Line cross p2 color_2 line_width]))"

text \<open>Line 212: \<^verbatim>\<open>for i in range(len(points) - 1)\<close>.\<close>

fun draw_segments :: "point list \<Rightarrow> real \<Rightarrow> int \<Rightarrow> error + draw_op list" where
  "draw_segments (p1 # p2 # ps) y_base line_width =
     and_then (draw_segment p1 p2 y_base line_width) (\<lambda>seg.
     and_then (draw_segments (p2 # ps) y_base line_width) (\<lambda>segs.
       Inr (seg @ segs)))"
| "draw_segments ps y_base line_width = Inr []"

text \<open>Line 255: the colour of the dot at the end of the line.\<close>

definition dot_color :: "real \<Rightarrow> real \<Rightarrow> color" where
  "dot_color last_price prev = (if last_price \<ge> prev then c_up else c_down)"

text \<open>Lines 184-258: the whole chart section, skipped unless there are two prices.\<close>

definition draw_chart :: "nat \<Rightarrow> nat \<Rightarrow> font \<Rightarrow> font \<Rightarrow> real list \<Rightarrow> real \<Rightarrow> error + draw_op list" where
  "draw_chart width height font_small font_tiny hist prev =
     (if length hist > 1 then
        and_then (value_range hist prev) (\<lambda>rng.
        and_then (y_base_of height prev rng) (\<lambda>y_base.
        and_then (points_of width height rng hist) (\<lambda>points.
        let line_width = max 2 (py_int (real width * 0.005)) in
        and_then (draw_segments points y_base line_width) (\<lambda>segs.
        and_then (py_last points) (\<lambda>last_pt.
        and_then (py_last hist) (\<lambda>last_price.
        let r = real_of_int (max 4 (py_int (real width * 0.01))) in
        Inr ([Text (chart_x_start width, chart_y_start height - real_of_int (py_int (real height * 0.05)))
                [Str ''High: '', Fix2 (snd rng)] c_grid font_small,
              Text (chart_x_start width, chart_y_end height + 5)
                [Str ''Low: '', Fix2 (fst rng)] c_grid font_small,
              Line (chart_x_start width, y_base) (chart_x_end width, y_base) c_grid 2,
              Text (chart_x_end width - real_of_int (py_int (real width * 0.075)), y_base - 20)
                [Str ''Prev''] c_grid font_tiny]
             @ segs
             @ [Ellipse (fst last_pt - r, snd last_pt - r, fst last_pt + r, snd last_pt + r)
                  (dot_color last_price prev)])))))))
      else Inr [])"

subsection \<open>\<^verbatim>\<open>Stock.generate_image\<close>: the dashboard (lines 110-176)\<close>

definition font_path_bold :: string where
  "font_path_bold = ''/usr/share/fonts/truetype/dejavu/DejaVuSans-Bold.ttf''"

definition font_path_reg :: string where
  "font_path_reg = ''/usr/share/fonts/truetype/dejavu/DejaVuSans.ttf''"

text \<open>Lines 94-97 and 114-122: a missing font file falls back to the built-in font.\<close>

definition load_font :: "device \<Rightarrow> string \<Rightarrow> int \<Rightarrow> font" where
  "load_font dev path sz = (if truetype_ok dev path sz then TrueType path sz else DefaultFont)"

definition load_fonts :: "device \<Rightarrow> nat \<Rightarrow> font \<times> font \<times> font \<times> font \<times> font" where
  "load_fonts dev height =
     (let s_giant = py_int (real height * 0.20);
          s_large = py_int (real height * 0.125);
          s_med = py_int (real height * 0.06);
          s_small = py_int (real height * 0.04);
          s_tiny = py_int (real height * 0.033)
      in if truetype_ok dev font_path_bold s_giant \<and> truetype_ok dev font_path_bold s_large
            \<and> truetype_ok dev font_path_reg s_med \<and> truetype_ok dev font_path_reg s_small
            \<and> truetype_ok dev font_path_reg s_tiny
         then (TrueType font_path_bold s_giant, TrueType font_path_bold s_large,
               TrueType font_path_reg s_med, TrueType font_path_reg s_small,
               TrueType font_path_reg s_tiny)
         else (DefaultFont, DefaultFont, DefaultFont, DefaultFont, DefaultFont))"

text \<open>Lines 173-176: the rows of the details column.\<close>

fun draw_labels :: "(string \<times> piece list) list \<Rightarrow> real \<Rightarrow> real \<Rightarrow> real \<Rightarrow> real \<Rightarrow> font \<Rightarrow> draw_op list" where
  "draw_labels [] label_x value_x start_y row_height font_med = []"
| "draw_labels ((label, val) # rest) label_x value_x start_y row_height font_med =
     [Text (label_x, start_y) [Str label] c_dim font_med,
      Text (value_x, start_y) val c_text_main font_med]
     @ draw_labels rest label_x value_x (start_y + row_height) row_height font_med"

text \<open>Lines 101-151: the header.\<close>

definition draw_header ::
  "device \<Rightarrow> nat \<Rightarrow> nat \<Rightarrow> string \<Rightarrow> font \<Rightarrow> font \<Rightarrow> font \<Rightarrow> stock_data \<Rightarrow> error + draw_op list" where
  "draw_header dev width height ticker font_giant font_large font_med data =
     (let current_price = price data;
          prev = prev_close data;
          amt = change_amt current_price prev
      in and_then (change_pct current_price prev) (\<lambda>pct.
      let is_bullish = (amt \<ge> 0);
          c_accent = (if is_bullish then c_up else c_down);
          margin_x = real_of_int (py_int (real width * 0.025));
          margin_y = real_of_int (py_int (real height * 0.04));
          time_width = text_length dev font_med (now_str dev);
          time_x = real width - time_width - margin_x;
          price_y = real_of_int (py_int (real height * 0.20));
          sign = (if is_bullish then ''+'' else []);
          change_y = real_of_int (py_int (real height * 0.45))
      in Inr [Text (margin_x, margin_y) [Str ticker] c_text_main font_large,
              Text (time_x, real_of_int (py_int (real height * 0.06))) [Str (now_str dev)] c_dim font_med,
              Text (margin_x, price_y) [Str ''$'', Fix2_grouped current_price] c_text_main font_giant,
              Text (margin_x, change_y)
                [Str sign, Fix2 amt, Str '' ('', Str sign, Fix2 pct, Str ''%)''] c_accent font_med]))"

text \<open>Lines 153-176: the details column.\<close>

definition draw_details :: "nat \<Rightarrow> nat \<Rightarrow> font \<Rightarrow> stock_data \<Rightarrow> error + draw_op list" where
  "draw_details width height font_med data =
     (let col_x_start = real_of_int (py_int (real width * 0.625));
          details_y_start = real_of_int (py_int (real height * 0.18));
          details_y_end = real_of_int (py_int (real height * 0.58))
      in and_then (py_div (d_vol data) 1000000) (\<lambda>millions.
      let labels = [(''Open'', [Str ''$'', Fix2 (d_open data)]),
                    (''High'', [Str ''$'', Fix2 (d_high data)]),
                    (''Low'', [Str ''$'', Fix2 (d_low data)]),
                    (''Vol'', [Fix1 millions, Str ''M''])];
          label_x = col_x_start + real_of_int (py_int (real width * 0.025));
          value_x = col_x_start + real_of_int (py_int (real width * 0.175));
          row_height = real_of_int (py_int (real height * 0.10))
      in Inr (Line (col_x_start, details_y_start) (col_x_start, details_y_end) c_grid 3
              # draw_labels labels label_x value_x details_y_start row_height font_med)))"

subsection \<open>\<^verbatim>\<open>Stock.generate_image\<close> (lines 66-260)\<close>

definition setting :: "(string \<rightharpoonup> string) \<Rightarrow> string \<Rightarrow> string \<Rightarrow> string" where
  "setting settings key dflt = (case settings key of Some v \<Rightarrow> v | None \<Rightarrow> dflt)"

definition dimensions :: "device \<Rightarrow> nat \<times> nat" where
  "dimensions dev =
     (if orientation dev = ''vertical'' then (snd (resolution dev), fst (resolution dev))
      else resolution dev)"

text \<open>Lines 91-99: the image returned when no data came back.\<close>

definition error_image :: "device \<Rightarrow> nat \<Rightarrow> nat \<Rightarrow> string \<Rightarrow> image" where
  "error_image dev width height ticker =
     \<lparr>img_size = (width, height), img_bg = c_bg,
      img_ops = [Text (20, real (height div 2))
                   [Str ''Failed to fetch data for '', Str ticker] c_down
                   (load_font dev font_path_bold (py_int (real height * 0.08)))]\<rparr>"

definition generate_image :: "(string \<rightharpoonup> string) \<Rightarrow> device \<Rightarrow> error + image" where
  "generate_image settings dev =
     (let ticker = setting settings ''ticker'' ''TSLA'';
          period = setting settings ''period'' ''1d'';
          interval = setting settings ''interval'' ''15m'';
          data = get_stock_data dev ticker period interval;
          width = fst (dimensions dev);
          height = snd (dimensions dev)
      in case data of
           None \<Rightarrow> Inr (error_image dev width height ticker)
         | Some d \<Rightarrow>
             (case load_fonts dev height of
                (font_giant, font_large, font_med, font_small, font_tiny) \<Rightarrow>
                  and_then (draw_header dev width height ticker font_giant font_large font_med d) (\<lambda>header.
                  and_then (draw_details width height font_med d) (\<lambda>details.
                  and_then (draw_chart width height font_small font_tiny (history d) (prev_close d)) (\<lambda>chart.
                    Inr \<lparr>img_size = (width, height), img_bg = c_bg,
                         img_ops = header @ details @ chart\<rparr>)))))"

subsection \<open>Vocabulary of the properties\<close>

text \<open>The number \<^verbatim>\<open>map_range\<close> returns, and the colour a drawing call is given.\<close>

definition mapped :: "real \<Rightarrow> real \<Rightarrow> real \<Rightarrow> real \<Rightarrow> real \<Rightarrow> real" where
  "mapped value in_min in_max out_min out_max =
     (if in_max = in_min then (out_min + out_max) / 2
      else (value - in_min) * (out_max - out_min) / (in_max - in_min) + out_min)"

fun fill :: "draw_op \<Rightarrow> color" where
  "fill (Text pos txt c f) = c"
| "fill (Line p q c w) = c"
| "fill (Ellipse box c) = c"

fun is_line :: "draw_op \<Rightarrow> bool" where
  "is_line (Line p q c w) = True"
| "is_line other = False"

fun is_ellipse :: "draw_op \<Rightarrow> bool" where
  "is_ellipse (Ellipse box c) = True"
| "is_ellipse other = False"

section \<open>Properties\<close>

subsection \<open>The range mapper\<close>

lemma and_then_Inr [simp]: "and_then (Inr v) f = f v"
  by (simp add: and_then_def)

lemma and_then_Inl [simp]: "and_then (Inl e) f = Inl e"
  by (simp add: and_then_def)

lemma py_div_nonzero [simp]: "b \<noteq> 0 \<Longrightarrow> py_div a b = Inr (a / b)"
  by (simp add: py_div_def)

lemma py_div_zero [simp]: "py_div a 0 = Inl ZeroDivisionError"
  by (simp add: py_div_def)







subsection \<open>The segment classifier\<close>

lemma cross_ratio_ok: "y2 \<noteq> y1 \<Longrightarrow> cross_ratio y1 y2 yb = Inr ((yb - y1) / (y2 - y1))"
  by (simp add: cross_ratio_def)

lemma crossing_proper:
  "y2 \<noteq> y1 \<Longrightarrow> crossing (x1, y1) (x2, y2) yb = Inr (x1 + (x2 - x1) * ((yb - y1) / (y2 - y1)), yb)"
  by (simp add: crossing_def cross_ratio_ok)

lemma crossing_fallback: "crossing (x1, y) (x2, y) yb = Inr (x1, y)"
  by (simp add: crossing_def)

text \<open>
  C1. A pair of adjacent points that is neither entirely bullish nor entirely bearish is
  split: the ratio is \<open>(y_base - y1) / (y2 - y1)\<close> (the division does not raise), the
  crossing point is \<open>(x1 + (x2 - x1) * ratio, y_base)\<close>, and exactly two lines are drawn,
  from the first point to the crossing point and from there to the second point, the first
  in the up colour iff \<open>y1 < y_base\<close> and the second in the up colour iff \<open>y2 < y_base\<close>.
  The witness is the example \<open>y1 = 50\<close>, \<open>y2 = 150\<close>, \<open>y_base = 100\<close>, \<open>x1 = 0\<close>,
  \<open>x2 = 10\<close>: ratio \<open>1/2\<close>, crossing at \<open>x = 5\<close>.
\<close>

theorem crossing_split:
  assumes "\<not> (y1 \<le> y_base \<and> y2 \<le> y_base)" and "\<not> (y1 \<ge> y_base \<and> y2 \<ge> y_base)"
  shows "cross_ratio y1 y2 y_base = Inr ((y_base - y1) / (y2 - y1)) \<and>
         crossing (x1, y1) (x2, y2) y_base =
           Inr (x1 + (x2 - x1) * ((y_base - y1) / (y2 - y1)), y_base) \<and>
         draw_segment (x1, y1) (x2, y2) y_base lw =
           Inr [Line (x1, y1) (x1 + (x2 - x1) * ((y_base - y1) / (y2 - y1)), y_base)
                  (if y1 < y_base then c_up else c_down) lw,
                Line (x1 + (x2 - x1) * ((y_base - y1) / (y2 - y1)), y_base) (x2, y2)
                  (if y2 < y_base then c_up else c_down) lw]"
proof -
  from assms have ne: "y2 \<noteq> y1" by linarith
  have r: "cross_ratio y1 y2 y_base = Inr ((y_base - y1) / (y2 - y1))"
    using ne by (rule cross_ratio_ok)
  have c: "crossing (x1, y1) (x2, y2) y_base =
           Inr (x1 + (x2 - x1) * ((y_base - y1) / (y2 - y1)), y_base)"
    using ne by (rule crossing_proper)
  have d: "draw_segment (x1, y1) (x2, y2) y_base lw =
           Inr [Line (x1, y1) (x1 + (x2 - x1) * ((y_base - y1) / (y2 - y1)), y_base)
                  (if y1 < y_base then c_up else c_down) lw,
                Line (x1 + (x2 - x1) * ((y_base - y1) / (y2 - y1)), y_base) (x2, y2)
                  (if y2 < y_base then c_up else c_down) lw]"
    using assms by (simp add: draw_segment_def c Let_def)
  from r c d show ?thesis by blast
qed

theorem crossing_split_witness:
  "\<not> ((50::real) \<le> 100 \<and> (150::real) \<le> 100) \<and> \<not> ((50::real) \<ge> 100 \<and> (150::real) \<ge> 100) \<and>
   cross_ratio 50 150 100 = Inr (1 / 2) \<and>
   crossing (0, 50) (10, 150) 100 = Inr (5, 100) \<and>
   draw_segment (0, 50) (10, 150) 100 2 =
     Inr [Line (0, 50) (5, 100) c_up 2, Line (5, 100) (10, 150) c_down 2]"
  using crossing_split [of 50 100 150 0 10 2] by simp

text \<open>
  C2 does not hold for every pair with an endpoint on the baseline: the first point on the
  baseline and the second one below it in price (\<open>y2 > y_base\<close>) give one line in the
  down colour.
\<close>

theorem tie_counterexample:
  "snd (0::real, 100::real) = 100 \<and>
   draw_segment (0, 100) (1, 150) 100 2 = Inr [Line (0, 100) (1, 150) c_down 2] \<and>
   c_down \<noteq> c_up"
  by (simp add: draw_segment_def c_down_def c_up_def)

text \<open>
  C2, amended. A pair with an endpoint on the baseline is never split: one line is drawn,
  in the up colour when both endpoints have \<open>y \<le> y_base\<close> and in the down colour
  otherwise. When the bullish and the bearish test both hold, the line is in the up colour,
  the bullish test being made first.
\<close>

theorem endpoint_on_baseline:
  "(snd p1 = y_base \<or> snd p2 = y_base \<longrightarrow>
      draw_segment p1 p2 y_base lw =
        Inr [Line p1 p2 (if snd p1 \<le> y_base \<and> snd p2 \<le> y_base then c_up else c_down) lw]) \<and>
   ((snd p1 \<le> y_base \<and> snd p2 \<le> y_base) \<and> (snd p1 \<ge> y_base \<and> snd p2 \<ge> y_base) \<longrightarrow>
      draw_segment p1 p2 y_base lw = Inr [Line p1 p2 c_up lw])"
  by (auto simp add: draw_segment_def)

theorem endpoint_on_baseline_witness:
  "draw_segment (0, 100) (1, 100) 100 2 = Inr [Line (0, 100) (1, 100) c_up 2] \<and>
   draw_segment (0, 100) (1, 150) 100 2 = Inr [Line (0, 100) (1, 150) c_down 2] \<and>
   draw_segment (0, 100) (1, 50) 100 2 = Inr [Line (0, 100) (1, 50) c_up 2]"
  using endpoint_on_baseline [of "(0, 100)" 100 "(1, 100)" 2]
        endpoint_on_baseline [of "(0, 100)" 100 "(1, 150)" 2]
        endpoint_on_baseline [of "(0, 100)" 100 "(1, 50)" 2]
  by simp

text \<open>
  C3 names the second point as the fallback crossing point; lines 239-240 take the first
  one, \<^verbatim>\<open>x_cross = x1\<close> and \<^verbatim>\<open>y_cross = y1\<close>.
\<close>

theorem fallback_counterexample:
  "crossing (0, 50) (10, 50) 100 = Inr (0, 50) \<and> (0::real, 50::real) \<noteq> (10, 50)"
  by (simp add: crossing_def)

text \<open>
  C3, amended. Two points with equal y never reach the crossing branch: one unsplit line is
  drawn for them. Were the computation of the crossing point reached with \<open>y2 = y1\<close>, it
  would not divide and would return the first point \<open>(x1, y1)\<close>, without raising.
\<close>

theorem fallback_first_point:
  "(y1 = y2 \<longrightarrow>
      draw_segment (x1, y1) (x2, y2) y_base lw =
        Inr [Line (x1, y1) (x2, y2) (if y1 \<le> y_base then c_up else c_down) lw]) \<and>
   crossing (x1, y) (x2, y) y_base = Inr (x1, y)"
  by (auto simp add: draw_segment_def crossing_fallback)

theorem fallback_first_point_witness:
  "draw_segment (0, 50) (10, 50) 100 2 = Inr [Line (0, 50) (10, 50) c_up 2] \<and>
   crossing (0, 50) (10, 50) 100 = Inr (0, 50)"
  using fallback_first_point [of 50 50 0 10 100 2 50] by simp

subsection \<open>The quote arithmetic\<close>

text \<open>
  C10. The change amount is the current price minus the previous close. The percentage is
  0 when the previous close is 0, with no division made, and \<open>change / prev_close * 100\<close>
  otherwise; it never raises.
\<close>

theorem change_pct_safe:
  "change_amt current_price prev = current_price - prev \<and>
   (prev = 0 \<longrightarrow> change_pct current_price prev = Inr 0) \<and>
   (prev \<noteq> 0 \<longrightarrow> change_pct current_price prev = Inr ((current_price - prev) / prev * 100))"
  by (simp add: change_pct_def change_amt_def)

theorem change_pct_safe_witness:
  "change_amt 12 0 = 12 \<and> change_pct 12 0 = Inr 0 \<and> change_pct 110 100 = Inr 10"
  using change_pct_safe [of 12 0] change_pct_safe [of 110 100] by simp


subsection \<open>Auxiliary facts about the chart\<close>

lemma map_range_mapped: "map_range v a b c d = Inr (mapped v a b c d)"
  by (simp add: map_range_def mapped_def)

lemma py_min_Min: "xs \<noteq> [] \<Longrightarrow> py_min xs = Inr (Min (set xs))"
proof (cases xs)
  case (Cons a list)
  then show ?thesis using Min.set_eq_fold [of a list] by simp
qed simp

lemma py_max_Max: "xs \<noteq> [] \<Longrightarrow> py_max xs = Inr (Max (set xs))"
proof (cases xs)
  case (Cons a list)
  then show ?thesis using Max.set_eq_fold [of a list] by simp
qed simp

lemma value_range_eq:
  "hist \<noteq> [] \<Longrightarrow> value_range hist prev = Inr (min (Min (set hist)) prev, max (Max (set hist)) prev)"
  by (simp add: value_range_def py_min_Min py_max_Max)



lemma project_eq:
  "project w h n rng ips =
     Inr (map (\<lambda>(i, p). (mapped (real i) 0 (real_of_int (int n - 1)) (chart_x_start w) (chart_x_end w),
                          mapped p (fst rng) (snd rng) (chart_y_end h) (chart_y_start h))) ips)"
  by (induction ips) (auto simp add: map_range_mapped)

lemma points_of_eq:
  "points_of w h rng hist =
     Inr (map (\<lambda>(i, p). (mapped (real i) 0 (real_of_int (int (length hist) - 1)) (chart_x_start w) (chart_x_end w),
                          mapped p (fst rng) (snd rng) (chart_y_end h) (chart_y_start h)))
            (enumerate 0 hist))"
  by (simp add: points_of_def project_eq)


lemma points_of_length: "points_of w h rng hist = Inr pts \<Longrightarrow> length pts = length hist"
  by (auto simp add: points_of_eq)

lemma crossing_total: "\<exists>c. crossing p1 p2 yb = Inr c"
  by (cases p1; cases p2) (simp add: crossing_def cross_ratio_def)

lemma draw_segment_total: "\<exists>seg. draw_segment p1 p2 yb lw = Inr seg"
proof -
  obtain c where "crossing p1 p2 yb = Inr c" using crossing_total by blast
  then show ?thesis by (simp add: draw_segment_def Let_def)
qed

lemma draw_segments_total: "\<exists>segs. draw_segments pts yb lw = Inr segs"
proof (induction pts yb lw rule: draw_segments.induct)
  case (1 p1 p2 ps yb lw)
  obtain seg where s: "draw_segment p1 p2 yb lw = Inr seg" using draw_segment_total by blast
  from 1 obtain segs where "draw_segments (p2 # ps) yb lw = Inr segs" by blast
  with s show ?case by simp
qed simp_all



lemma draw_chart_short: "length hist \<le> 1 \<Longrightarrow> draw_chart w h fs ft hist prev = Inr []"
  by (simp add: draw_chart_def)

lemma py_int_nonneg: "0 \<le> x \<Longrightarrow> real_of_int (py_int x) \<le> x"
  by (simp add: py_int_def)

lemma chart_y_ordered: "chart_y_start h \<le> chart_y_end h"
proof -
  have a: "real_of_int (py_int (real h * 0.625)) \<le> real h * 0.625"
    by (rule py_int_nonneg) simp
  have b: "real_of_int (py_int (real h * 0.08)) \<le> real h * 0.08"
    by (rule py_int_nonneg) simp
  have "real h * 0.625 + real h * 0.08 \<le> real h" by simp
  with a b show ?thesis unfolding chart_y_start_def chart_y_end_def by linarith
qed


lemma mapped_between:
  assumes "lo \<le> v" "v \<le> hi" "ys \<le> ye"
  shows "ys \<le> mapped v lo hi ye ys \<and> mapped v lo hi ye ys \<le> ye"
proof (cases "hi = lo")
  case True
  then show ?thesis using assms by (simp add: mapped_def)
next
  case False
  with assms have pos: "0 < hi - lo" by simp
  define t where "t = (v - lo) / (hi - lo)"
  have t0: "0 \<le> t" using assms pos by (simp add: t_def)
  have t1: "t \<le> 1" using assms pos by (simp add: t_def)
  have eq: "mapped v lo hi ye ys = ye - t * (ye - ys)"
    using False by (simp add: mapped_def t_def field_simps)
  have "0 \<le> t * (ye - ys)" using t0 assms by simp
  moreover have "t * (ye - ys) \<le> 1 * (ye - ys)"
    using t1 assms by (intro mult_right_mono) simp_all
  ultimately show ?thesis unfolding eq by simp
qed

lemma range_bounds:
  assumes "hist \<noteq> []"
  shows "min (Min (set hist)) prev \<le> prev" "prev \<le> max (Max (set hist)) prev"
    "v \<in> set hist \<Longrightarrow> min (Min (set hist)) prev \<le> v"
    "v \<in> set hist \<Longrightarrow> v \<le> max (Max (set hist)) prev"
proof -
  show "min (Min (set hist)) prev \<le> prev" by simp
  show "prev \<le> max (Max (set hist)) prev" by simp
  show "min (Min (set hist)) prev \<le> v" if "v \<in> set hist"
    using that Min_le [of "set hist" v] by (simp add: min_le_iff_disj)
  show "v \<le> max (Max (set hist)) prev" if "v \<in> set hist"
    using that Max_ge [of "set hist" v] by (simp add: le_max_iff_disj)
qed

lemma draw_chart_parts:
  assumes "length hist > 1"
  shows "\<exists>rng yb pts segs a b c d box.
           rng = (min (Min (set hist)) prev, max (Max (set hist)) prev) \<and>
           yb = mapped prev (fst rng) (snd rng) (chart_y_end h) (chart_y_start h) \<and>
           points_of w h rng hist = Inr pts \<and>
           draw_segments pts yb (max 2 (py_int (real w * 0.005))) = Inr segs \<and>
           draw_chart w h fs ft hist prev =
             Inr ([a, b, c, d] @ segs @ [Ellipse box (dot_color (last hist) prev)]) \<and>
           fill a = c_grid \<and> fill b = c_grid \<and> fill c = c_grid \<and> fill d = c_grid"
proof -
  from assms have ne: "hist \<noteq> []" by auto
  define rng where "rng = (min (Min (set hist)) prev, max (Max (set hist)) prev)"
  define yb where "yb = mapped prev (fst rng) (snd rng) (chart_y_end h) (chart_y_start h)"
  have vr: "value_range hist prev = Inr rng"
    using ne by (simp add: value_range_eq rng_def)
  have yb: "y_base_of h prev rng = Inr yb"
    by (simp add: y_base_of_def map_range_mapped yb_def)
  obtain pts where pts: "points_of w h rng hist = Inr pts"
    by (simp add: points_of_eq)
  then have "length pts = length hist" by (rule points_of_length)
  with ne have pl: "py_last pts = Inr (last pts)" by (auto simp add: py_last_def)
  have hl: "py_last hist = Inr (last hist)" using ne by (simp add: py_last_def)
  obtain segs where segs: "draw_segments pts yb (max 2 (py_int (real w * 0.005))) = Inr segs"
    using draw_segments_total by blast
  have "\<exists>a b c d box.
          draw_chart w h fs ft hist prev =
            Inr ([a, b, c, d] @ segs @ [Ellipse box (dot_color (last hist) prev)]) \<and>
          fill a = c_grid \<and> fill b = c_grid \<and> fill c = c_grid \<and> fill d = c_grid"
    unfolding draw_chart_def Let_def
    apply (simp only: assms vr yb pts segs pl hl and_then_Inr if_True)
    apply (intro exI conjI)
        apply (rule refl)
       apply (simp_all only: fill.simps)
    done
  with pts segs rng_def yb_def show ?thesis by blast
qed


lemma change_pct_total: "\<exists>pct. change_pct c p = Inr pct"
  by (simp add: change_pct_def)

lemma colors_distinct:
  "c_up \<noteq> c_down" "c_up \<noteq> c_grid" "c_down \<noteq> c_grid" "c_text_main \<noteq> c_grid" "c_dim \<noteq> c_grid"
  by (simp_all add: c_up_def c_down_def c_grid_def c_text_main_def c_dim_def)

lemma draw_header_shape:
  "\<exists>ops. draw_header dev w h ticker fg fl fm d = Inr ops \<and> length ops = 4 \<and>
         (\<forall>op \<in> set ops. \<not> is_line op \<and> \<not> is_ellipse op \<and> fill op \<noteq> c_grid)"
proof -
  obtain pct where "change_pct (price d) (prev_close d) = Inr pct"
    using change_pct_total by blast
  then show ?thesis
    by (simp add: draw_header_def Let_def colors_distinct)
qed

lemma draw_details_shape:
  "\<exists>p q ts. draw_details w h fm d = Inr (Line p q c_grid 3 # ts) \<and> length ts = 8 \<and>
         (\<forall>op \<in> set ts. \<not> is_line op \<and> \<not> is_ellipse op \<and> fill op \<noteq> c_grid)"
  by (simp add: draw_details_def Let_def colors_distinct)

lemma draw_chart_total: "\<exists>ops. draw_chart w h fs ft hist prev = Inr ops"
proof (cases "length hist > 1")
  case True
  from draw_chart_parts [OF True, of prev h w fs ft] show ?thesis by blast
next
  case False
  then show ?thesis by (simp add: draw_chart_short)
qed

lemma generate_image_total: "\<exists>img. generate_image settings dev = Inr img"
proof (cases "get_stock_data dev (setting settings ''ticker'' ''TSLA'')
                (setting settings ''period'' ''1d'') (setting settings ''interval'' ''15m'')")
  case None
  then show ?thesis by (simp add: generate_image_def)
next
  case (Some d)
  obtain fg fl fm fs ft where f: "load_fonts dev (snd (dimensions dev)) = (fg, fl, fm, fs, ft)"
    by (metis prod_cases5)
  obtain header where hd: "draw_header dev (fst (dimensions dev)) (snd (dimensions dev))
      (setting settings ''ticker'' ''TSLA'') fg fl fm d = Inr header"
    using draw_header_shape by blast
  obtain p q ts where dt: "draw_details (fst (dimensions dev)) (snd (dimensions dev)) fm d = Inr (Line p q c_grid 3 # ts)"
    using draw_details_shape by blast
  obtain chart where ch: "draw_chart (fst (dimensions dev)) (snd (dimensions dev)) fs ft
      (history d) (prev_close d) = Inr chart"
    using draw_chart_total by blast
  show ?thesis
    by (simp add: generate_image_def Some f hd dt ch)
qed

lemma filter_none: "\<forall>x \<in> set xs. \<not> P x \<Longrightarrow> filter P xs = []"
  by (simp add: filter_empty_conv)

lemma attempts_from_none:
  "\<forall>k<n. f (a + k) = None \<Longrightarrow> attempts_from f a n = None"
proof (induction n arbitrary: a)
  case 0
  show ?case by simp
next
  case (Suc n)
  from Suc.prems have "f a = None" by (metis add.right_neutral zero_less_Suc)
  moreover have "\<forall>k<n. f (Suc a + k) = None"
    using Suc.prems by (metis Suc_less_eq add_Suc_shift)
  ultimately show ?case using Suc.IH [of "Suc a"] by simp
qed

lemmas chart_eval =
  draw_chart_def value_range_def y_base_of_def map_range_def points_of_def
  draw_segment_def crossing_def cross_ratio_def py_last_def dot_color_def
  chart_x_start_def chart_x_end_def chart_y_start_def chart_y_end_def py_int_def Let_def
  enumerate_eq_zip upt_rec

text \<open>
  On a display of height 0 the chart rectangle is empty: every point has the y of the
  baseline, so the bullish test holds for every pair, also for prices below the previous
  close.
\<close>

lemma zero_height_example:
  "draw_chart 800 0 DefaultFont DefaultFont [91, 95, 98] 100 =
     Inr [Text (24, 0) [Str ''High: '', Fix2 100] c_grid DefaultFont,
          Text (24, 5) [Str ''Low: '', Fix2 91] c_grid DefaultFont,
          Line (24, 0) (776, 0) c_grid 2,
          Text (716, - 20) [Str ''Prev''] c_grid DefaultFont,
          Line (24, 0) (400, 0) c_up 4,
          Line (400, 0) (776, 0) c_up 4,
          Ellipse (768, - 8, 784, 8) c_down]"
  by (simp add: chart_eval)

subsection \<open>The plotted range and the baseline\<close>

text \<open>
  C4. For a non-empty history the plotted range is
  \<open>(min (min history) baseline, max (max history) baseline)\<close>, computed without raising;
  it contains the baseline and every price of the history; and the y coordinate of the
  baseline (line 196) lies between the top \<open>chart_y_start\<close> and the bottom \<open>chart_y_end\<close>
  of the chart rectangle, for every display height.
\<close>

theorem value_range_covers_baseline:
  assumes "hist \<noteq> []"
  shows "\<exists>lo hi y. value_range hist prev = Inr (lo, hi) \<and>
           lo = min (Min (set hist)) prev \<and> hi = max (Max (set hist)) prev \<and>
           lo \<le> prev \<and> prev \<le> hi \<and> (\<forall>v \<in> set hist. lo \<le> v \<and> v \<le> hi) \<and>
           y_base_of height prev (lo, hi) = Inr y \<and>
           chart_y_start height \<le> y \<and> y \<le> chart_y_end height"
proof -
  define lo where "lo = min (Min (set hist)) prev"
  define hi where "hi = max (Max (set hist)) prev"
  define y where "y = mapped prev lo hi (chart_y_end height) (chart_y_start height)"
  have vr: "value_range hist prev = Inr (lo, hi)"
    using assms by (simp add: value_range_eq lo_def hi_def)
  have b: "lo \<le> prev" "prev \<le> hi"
    by (simp_all add: lo_def hi_def)
  have h: "\<forall>v \<in> set hist. lo \<le> v \<and> v \<le> hi"
    using range_bounds(3,4) [OF assms] by (simp add: lo_def hi_def)
  have yb: "y_base_of height prev (lo, hi) = Inr y"
    by (simp add: y_base_of_def map_range_mapped y_def)
  have "chart_y_start height \<le> y \<and> y \<le> chart_y_end height"
    unfolding y_def using b chart_y_ordered by (intro mapped_between)
  with vr b h yb lo_def hi_def show ?thesis by blast
qed

theorem value_range_covers_baseline_witness:
  "[3, 1, 2] \<noteq> ([]::real list) \<and>
   value_range [3, 1, 2] 5 = Inr (1, 5) \<and> y_base_of 480 5 (1, 5) = Inr 300 \<and>
   chart_y_start 480 = 300 \<and> chart_y_end 480 = 442"
  using value_range_covers_baseline [of "[3, 1, 2]" 5 480]
  by (simp add: value_range_def y_base_of_def map_range_def chart_y_start_def chart_y_end_def py_int_def)

subsection \<open>The chart section as a whole\<close>

text \<open>
  C7. \<^verbatim>\<open>generate_image\<close> returns an image for every input and never raises, whatever the
  prices (equal minimum and maximum, a single price, no price, a previous close of zero).
  With a history of length 0 or 1 the chart section draws nothing: the image has the 13
  drawing calls of the header and the details column only; its one line, and its one call in
  the grid colour (the colour of the baseline and of the High, Low and Prev labels), is the
  divider of the details column; it has no ellipse.
\<close>

theorem short_history_skips_chart:
  "(\<exists>img. generate_image settings dev = Inr img) \<and>
   (length hist \<le> 1 \<longrightarrow> draw_chart w h fs ft hist prev = Inr []) \<and>
   (get_stock_data dev (setting settings ''ticker'' ''TSLA'') (setting settings ''period'' ''1d'')
        (setting settings ''interval'' ''15m'') = Some d \<and> length (history d) \<le> 1 \<longrightarrow>
      (\<exists>img p q. generate_image settings dev = Inr img \<and>
         length (img_ops img) = 13 \<and>
         filter is_line (img_ops img) = [Line p q c_grid 3] \<and>
         filter (\<lambda>op. fill op = c_grid) (img_ops img) = [Line p q c_grid 3] \<and>
         filter is_ellipse (img_ops img) = []))"
proof (intro conjI impI)
  show "\<exists>img. generate_image settings dev = Inr img" by (rule generate_image_total)
  show "draw_chart w h fs ft hist prev = Inr []" if "length hist \<le> 1"
    using that by (rule draw_chart_short)
next
  let ?t = "setting settings ''ticker'' ''TSLA''"
  let ?W = "fst (dimensions dev)"
  let ?H = "snd (dimensions dev)"
  assume a: "get_stock_data dev ?t (setting settings ''period'' ''1d'')
        (setting settings ''interval'' ''15m'') = Some d \<and> length (history d) \<le> 1"
  obtain fg fl fm fs ft where f: "load_fonts dev ?H = (fg, fl, fm, fs, ft)"
    by (metis prod_cases5)
  obtain header where hd: "draw_header dev ?W ?H ?t fg fl fm d = Inr header" "length header = 4"
    "\<forall>op \<in> set header. \<not> is_line op \<and> \<not> is_ellipse op \<and> fill op \<noteq> c_grid"
    using draw_header_shape by blast
  obtain p q ts where dt: "draw_details ?W ?H fm d = Inr (Line p q c_grid 3 # ts)" "length ts = 8"
    "\<forall>op \<in> set ts. \<not> is_line op \<and> \<not> is_ellipse op \<and> fill op \<noteq> c_grid"
    using draw_details_shape by blast
  have ch: "draw_chart ?W ?H fs ft (history d) (prev_close d) = Inr []"
    using a by (simp add: draw_chart_short)
  define img where "img = \<lparr>img_size = (?W, ?H), img_bg = c_bg, img_ops = header @ Line p q c_grid 3 # ts\<rparr>"
  have g: "generate_image settings dev = Inr img"
    using a by (simp add: generate_image_def f hd(1) dt(1) ch img_def)
  have ops: "img_ops img = header @ Line p q c_grid 3 # ts" by (simp add: img_def)
  have 1: "length (img_ops img) = 13" using hd(2) dt(2) by (simp add: ops)
  have 2: "filter is_line (img_ops img) = [Line p q c_grid 3]"
    using hd(3) dt(3) by (simp add: ops filter_none)
  have 3: "filter (\<lambda>op. fill op = c_grid) (img_ops img) = [Line p q c_grid 3]"
    using hd(3) dt(3) by (simp add: ops filter_none)
  have 4: "filter is_ellipse (img_ops img) = []"
    using hd(3) dt(3) by (simp add: ops filter_none)
  from g 1 2 3 4
  show "\<exists>img p q. generate_image settings dev = Inr img \<and>
         length (img_ops img) = 13 \<and>
         filter is_line (img_ops img) = [Line p q c_grid 3] \<and>
         filter (\<lambda>op. fill op = c_grid) (img_ops img) = [Line p q c_grid 3] \<and>
         filter is_ellipse (img_ops img) = []" by blast
qed

theorem short_history_skips_chart_witness:
  "get_stock_data
     \<lparr>yf_attempt = (\<lambda>t p i k. if k = 2 then Some \<lparr>price = 105, prev_close = 100, d_open = 101,
          d_high = 106, d_low = 99, d_vol = 2500000, history = [105]\<rparr> else None),
      resolution = (800, 480), orientation = ''horizontal'',
      truetype_ok = (\<lambda>p s. False), text_length = (\<lambda>f s. 100), now_str = ''Mon 10:00''\<rparr>
     (setting Map.empty ''ticker'' ''TSLA'') (setting Map.empty ''period'' ''1d'')
     (setting Map.empty ''interval'' ''15m'')
   = Some \<lparr>price = 105, prev_close = 100, d_open = 101,
          d_high = 106, d_low = 99, d_vol = 2500000, history = [105]\<rparr> \<and>
   length (history \<lparr>price = 105, prev_close = 100, d_open = 101,
          d_high = 106, d_low = 99, d_vol = 2500000, history = [105]\<rparr>) \<le> 1 \<and>
   generate_image Map.empty
     \<lparr>yf_attempt = (\<lambda>t p i k. if k = 2 then Some \<lparr>price = 105, prev_close = 100, d_open = 101,
          d_high = 106, d_low = 99, d_vol = 2500000, history = [105]\<rparr> else None),
      resolution = (800, 480), orientation = ''horizontal'',
      truetype_ok = (\<lambda>p s. False), text_length = (\<lambda>f s. 100), now_str = ''Mon 10:00''\<rparr>
   = Inr \<lparr>img_size = (800, 480), img_bg = c_bg,
          img_ops =
            [Text (20, 19) [Str ''TSLA''] c_text_main DefaultFont,
             Text (680, 28) [Str ''Mon 10:00''] c_dim DefaultFont,
             Text (20, 96) [Str ''$'', Fix2_grouped 105] c_text_main DefaultFont,
             Text (20, 216) [Str ''+'', Fix2 5, Str '' ('', Str ''+'', Fix2 5, Str ''%)''] c_up DefaultFont,
             Line (500, 86) (500, 278) c_grid 3,
             Text (520, 86) [Str ''Open''] c_dim DefaultFont,
             Text (640, 86) [Str ''$'', Fix2 101] c_text_main DefaultFont,
             Text (520, 134) [Str ''High''] c_dim DefaultFont,
             Text (640, 134) [Str ''$'', Fix2 106] c_text_main DefaultFont,
             Text (520, 182) [Str ''Low''] c_dim DefaultFont,
             Text (640, 182) [Str ''$'', Fix2 99] c_text_main DefaultFont,
             Text (520, 230) [Str ''Vol''] c_dim DefaultFont,
             Text (640, 230) [Fix1 (5 / 2), Str ''M''] c_text_main DefaultFont]\<rparr>"
  using short_history_skips_chart [of Map.empty
     "\<lparr>yf_attempt = (\<lambda>t p i k. if k = 2 then Some \<lparr>price = 105, prev_close = 100, d_open = 101,
          d_high = 106, d_low = 99, d_vol = 2500000, history = [105]\<rparr> else None),
      resolution = (800, 480), orientation = ''horizontal'',
      truetype_ok = (\<lambda>p s. False), text_length = (\<lambda>f s. 100), now_str = ''Mon 10:00''\<rparr>"
     "[105]" 800 480 DefaultFont DefaultFont 100
     "\<lparr>price = 105, prev_close = 100, d_open = 101,
          d_high = 106, d_low = 99, d_vol = 2500000, history = [105]\<rparr>"]
  by (simp add: generate_image_def get_stock_data_def retries_def eval_nat_numeral setting_def
        dimensions_def load_fonts_def draw_header_def draw_details_def draw_chart_def
        change_pct_def change_amt_def py_int_def Let_def)

text \<open>
  C8. When every one of the \<open>retries\<close> attempts fails, \<^verbatim>\<open>get_stock_data\<close> returns
  \<^verbatim>\<open>None\<close> and \<^verbatim>\<open>generate_image\<close> returns, without raising, the image with the
  background colour and one drawing call: the message
  \<^verbatim>\<open>Failed to fetch data for <ticker>\<close> in the down colour.
\<close>

theorem fetch_failure_image:
  assumes "\<forall>attempt<retries. yf_attempt dev (setting settings ''ticker'' ''TSLA'')
             (setting settings ''period'' ''1d'') (setting settings ''interval'' ''15m'') attempt = None"
  shows "get_stock_data dev (setting settings ''ticker'' ''TSLA'')
             (setting settings ''period'' ''1d'') (setting settings ''interval'' ''15m'') = None \<and>
         (\<exists>fnt. generate_image settings dev =
            Inr \<lparr>img_size = dimensions dev, img_bg = c_bg,
                 img_ops = [Text (20, real (snd (dimensions dev) div 2))
                              [Str ''Failed to fetch data for '', Str (setting settings ''ticker'' ''TSLA'')]
                              c_down fnt]\<rparr>)"
proof -
  have n: "get_stock_data dev (setting settings ''ticker'' ''TSLA'')
             (setting settings ''period'' ''1d'') (setting settings ''interval'' ''15m'') = None"
    unfolding get_stock_data_def using assms by (intro attempts_from_none) simp
  then show ?thesis
    by (simp add: generate_image_def error_image_def Let_def)
qed

theorem fetch_failure_image_witness:
  "generate_image Map.empty
     \<lparr>yf_attempt = (\<lambda>t p i k. None), resolution = (800, 480), orientation = ''horizontal'',
      truetype_ok = (\<lambda>p s. True), text_length = (\<lambda>f s. 100), now_str = ''Mon 10:00''\<rparr> =
   Inr \<lparr>img_size = (800, 480), img_bg = c_bg,
        img_ops = [Text (20, 240) [Str ''Failed to fetch data for '', Str ''TSLA''] c_down
                     (TrueType font_path_bold 38)]\<rparr>"
proof -
  let ?dev = "\<lparr>yf_attempt = (\<lambda>t p i k. None), resolution = (800, 480), orientation = ''horizontal'',
      truetype_ok = (\<lambda>p s. True), text_length = (\<lambda>f s. 100), now_str = ''Mon 10:00''\<rparr>"
  have "\<forall>attempt<retries. yf_attempt ?dev (setting Map.empty ''ticker'' ''TSLA'')
             (setting Map.empty ''period'' ''1d'') (setting Map.empty ''interval'' ''15m'') attempt = None"
    by simp
  from fetch_failure_image [OF this]
  have "get_stock_data ?dev (setting Map.empty ''ticker'' ''TSLA'')
             (setting Map.empty ''period'' ''1d'') (setting Map.empty ''interval'' ''15m'') = None" by blast
  then show ?thesis
    by (simp add: generate_image_def error_image_def setting_def dimensions_def load_font_def py_int_def Let_def)
qed



end
